theory Spec2Isabelle
  imports Main "HOL-Library.Word"
begin

unbundle bit_operations_syntax

section \<open>Machine types and constants of rkflashtool.c\<close>

type_synonym u8 = "8 word"
type_synonym u16 = "16 word"
type_synonym u32 = "32 word"

definition RKFT_BLOCKSIZE :: nat where "RKFT_BLOCKSIZE = 0x4000"
definition RKFT_IDB_DATASIZE :: nat where "RKFT_IDB_DATASIZE = 0x200"
definition RKFT_IDB_BLOCKSIZE :: nat where "RKFT_IDB_BLOCKSIZE = 0x210"
definition RKFT_IDB_INCR :: int where "RKFT_IDB_INCR = 0x20"
definition RKFT_OFF_INCR :: int where "RKFT_OFF_INCR = int (drop_bit 9 RKFT_BLOCKSIZE)"
definition MAX_PARAM_LENGTH :: int where "MAX_PARAM_LENGTH = 128 * 512 - 12"
definition SDRAM_BASE_ADDRESS :: int where "SDRAM_BASE_ADDRESS = 0x60000000"

definition RKFT_CMD_TESTUNITREADY :: u32 where "RKFT_CMD_TESTUNITREADY = 0x80000600"
definition RKFT_CMD_READFLASHID :: u32 where "RKFT_CMD_READFLASHID = 0x80000601"
definition RKFT_CMD_READFLASHINFO :: u32 where "RKFT_CMD_READFLASHINFO = 0x8000061a"
definition RKFT_CMD_READCHIPINFO :: u32 where "RKFT_CMD_READCHIPINFO = 0x8000061b"
definition RKFT_CMD_RESETDEVICE :: u32 where "RKFT_CMD_RESETDEVICE = 0x000006ff"
definition RKFT_CMD_READSECTOR :: u32 where "RKFT_CMD_READSECTOR = 0x80000a04"
definition RKFT_CMD_READLBA :: u32 where "RKFT_CMD_READLBA = 0x80000a14"
definition RKFT_CMD_READSDRAM :: u32 where "RKFT_CMD_READSDRAM = 0x80000a17"
definition RKFT_CMD_WRITESECTOR :: u32 where "RKFT_CMD_WRITESECTOR = 0x00000a05"
definition RKFT_CMD_WRITELBA :: u32 where "RKFT_CMD_WRITELBA = 0x00000a15"
definition RKFT_CMD_WRITESDRAM :: u32 where "RKFT_CMD_WRITESDRAM = 0x00000a18"
definition RKFT_CMD_EXECUTESDRAM :: u32 where "RKFT_CMD_EXECUTESDRAM = 0x00000a19"

definition USB_BULK_CB_WRAP_LEN :: nat where "USB_BULK_CB_WRAP_LEN = 31"
definition USB_BULK_CS_WRAP_LEN :: nat where "USB_BULK_CS_WRAP_LEN = 13"

section \<open>The command frame: \<open>send_cbw\<close>\<close>

text \<open>
  \<open>SETBE16(a, v)\<close> and \<open>SETBE32(a, v)\<close>: the macros store \<open>v\<close> big-endian at the
  address \<open>a\<close>, here the index \<open>i\<close> of the array, low byte first as the macros do.
\<close>

definition SETBE16 :: "u8 list \<Rightarrow> nat \<Rightarrow> u16 \<Rightarrow> u8 list" where
  "SETBE16 a i v =
     (let a = a[i + 1 := ucast (v AND 0xff)];
          a = a[i := ucast (drop_bit 8 v AND 0xff)]
      in a)"

definition SETBE32 :: "u8 list \<Rightarrow> nat \<Rightarrow> u32 \<Rightarrow> u8 list" where
  "SETBE32 a i v =
     (let a = a[i + 3 := ucast (v AND 0xff)];
          a = a[i + 2 := ucast (drop_bit 8 v AND 0xff)];
          a = a[i + 1 := ucast (drop_bit 16 v AND 0xff)];
          a = a[i := ucast (drop_bit 24 v AND 0xff)]
      in a)"

text \<open>\<open>memcpy(cbw, "USBC", 4)\<close>: the four signature bytes.\<close>

definition USBC :: "u8 list" where
  "USBC = [0x55, 0x53, 0x42, 0x43]"

text \<open>
  The 31 bytes \<open>send_cbw(command, offset, nsectors, flag)\<close> hands to the bulk transfer;
  \<open>r\<close> is the value \<open>random()\<close> returned. The writes are in the order of the source.
\<close>

definition cbw_frame :: "u32 \<Rightarrow> u32 \<Rightarrow> u32 \<Rightarrow> u16 \<Rightarrow> u8 \<Rightarrow> u8 list" where
  "cbw_frame r command offset nsectors flag =
     (let cbw = replicate USB_BULK_CB_WRAP_LEN 0;
          cbw = USBC @ drop 4 cbw;
          cbw = (if r \<noteq> 0 then SETBE32 cbw 4 r else cbw);
          cbw = (if offset \<noteq> 0 then SETBE32 cbw 17 offset else cbw);
          cbw = (if nsectors \<noteq> 0 then SETBE16 cbw 22 nsectors else cbw);
          cbw = (if command \<noteq> 0 then SETBE32 cbw 12 command else cbw);
          cbw = (if flag \<noteq> 0 then cbw[16 := flag] else cbw)
      in cbw)"

text \<open>
  Reading a frame back. The tool has no decoder of its own (the device has); these read
  the fields at the byte positions the frame layout gives them, big-endian.
\<close>

definition GETBE16 :: "u8 list \<Rightarrow> nat \<Rightarrow> u16" where
  "GETBE16 a i = push_bit 8 (ucast (a ! i)) OR ucast (a ! (i + 1))"

definition GETBE32 :: "u8 list \<Rightarrow> nat \<Rightarrow> u32" where
  "GETBE32 a i =
     push_bit 24 (ucast (a ! i)) OR push_bit 16 (ucast (a ! (i + 1)))
       OR push_bit 8 (ucast (a ! (i + 2))) OR ucast (a ! (i + 3))"

definition frame_tag :: "u8 list \<Rightarrow> u32" where
  "frame_tag f = GETBE32 f 4"

definition frame_command :: "u8 list \<Rightarrow> u32" where
  "frame_command f = GETBE32 f 12"

definition frame_flag :: "u8 list \<Rightarrow> u8" where
  "frame_flag f = f ! 16"

definition frame_offset :: "u8 list \<Rightarrow> u32" where
  "frame_offset f = GETBE32 f 17"

definition frame_nsectors :: "u8 list \<Rightarrow> u16" where
  "frame_nsectors f = GETBE16 f 22"


section \<open>The process state and its environment\<close>

text \<open>
  What the process prints: the texts of \<open>info\<close>, \<open>infocr\<close> and \<open>fprintf(stderr, ...)\<close>,
  with the numbers they format.
\<close>

datatype message =
    WorkingWithPartition string
  | MtdpartsNotFound
  | MtdpartsText string
  | PartitionNotFound string
  | PartitionText string
  | BadSyntaxMtdparts
  | FoundOffset int
  | ExtendsToEndOfNand int
  | FoundSize int
  | BadSyntaxSize
  | Rebooting
  | ReadingAt int
  | WritingAt int
  | ErasingAt int
  | ReadingParametersAt int
  | ParameterSize int
  | ReadError
  | ReadingMemoryAt int int
  | WritingMemoryAt int int
  | Booting
  | ReadingIDBAt int
  | WritingIDBAt int
  | ChipVersion "u8 list"
  | FlashID "u8 list"
  | FlashInfo "u8 list"
  | LoadDDRInit
  | LoadUSBLoader
  | PrematureEndOfFile
  | Done

text \<open>The texts of \<open>fatal\<close>, which ends the process with \<open>exit(1)\<close> at once.\<close>

datatype fatal_message =
    BadDataLength
  | BadParameterLength
  | BadCRC u32 u32
  | WriteError

text \<open>
  What the process does to the outside, in order: bulk transfers of the command frame, of
  data and of the status frame, vendor control transfers (with their \<open>wIndex\<close>), writes to
  standard output, the frame dump \<open>send_cbw\<close> prints with \<open>printf\<close>, messages, the settle
  delay, and the release and close of the device at the label \<open>exit\<close>.
\<close>

datatype event =
    CbwOut "u8 list"
  | DataOut "u8 list"
  | DataIn nat
  | CswIn
  | ControlOut nat "u8 list"
  | StdoutWrite "u8 list"
  | FrameDump "u8 list"
  | Info message
  | Usleep
  | Teardown

text \<open>
  The static arrays \<open>buf\<close> and \<open>ibuf\<close>, and the environment of one run: the values
  \<open>random()\<close> returns, what the device sends on each bulk IN transfer, the bytes on standard
  input (a file, as the usage text has it: a read returns as many bytes as are asked for
  while there are any, then 0, or -1 if \<open>stdin_err\<close>), and whether writes to standard
  output fail. \<open>trace\<close> is what has been done so far.
\<close>

record world =
  buf :: "u8 list"
  ibuf :: "u8 list"
  rand :: "nat \<Rightarrow> u32"
  nrand :: nat
  usb_in :: "u8 list list"
  stdin :: "u8 list"
  stdin_err :: bool
  stdout_fail :: bool
  trace :: "event list"

text \<open>The state at the start of \<open>main\<close>: static storage is zero, nothing has happened.\<close>

definition initial_world ::
  "(nat \<Rightarrow> u32) \<Rightarrow> u8 list list \<Rightarrow> u8 list \<Rightarrow> bool \<Rightarrow> bool \<Rightarrow> world" where
  "initial_world rnd dev inp inp_err out_fail =
     \<lparr>buf = replicate RKFT_BLOCKSIZE 0, ibuf = replicate RKFT_IDB_BLOCKSIZE 0,
      rand = rnd, nrand = 0, usb_in = dev, stdin = inp, stdin_err = inp_err,
      stdout_fail = out_fail, trace = []\<rparr>"

text \<open>
  How a piece of \<open>main\<close> ends: it falls through to the next statement, jumps to the label
  \<open>exit\<close>, ends the process through \<open>fatal\<close>, or accesses \<open>buf\<close> outside its bounds, where
  C leaves the behaviour undefined and the model follows it no further.
\<close>

datatype flow = Next | GotoExit | Fatal fatal_message | BufferOverrun

definition emit :: "event \<Rightarrow> world \<Rightarrow> world" where
  "emit e w = w\<lparr>trace := trace w @ [e]\<rparr>"

definition info :: "message \<Rightarrow> world \<Rightarrow> world" where
  "info m w = emit (Info m) w"

text \<open>\<open>store a i xs\<close>: the bytes \<open>xs\<close> copied to \<open>a + i\<close> (\<open>memcpy\<close>, \<open>read\<close>, a transfer).\<close>

definition store :: "u8 list \<Rightarrow> nat \<Rightarrow> u8 list \<Rightarrow> u8 list" where
  "store a i xs = take i a @ xs @ drop (i + length xs) a"

definition send_cbw :: "u32 \<Rightarrow> u32 \<Rightarrow> u16 \<Rightarrow> u8 \<Rightarrow> world \<Rightarrow> world" where
  "send_cbw command offset nsectors flag w =
     (let r = rand w (nrand w);
          w = w\<lparr>nrand := Suc (nrand w)\<rparr>;
          cbw = cbw_frame r command offset nsectors flag;
          w = emit (FrameDump [cbw ! 12, cbw ! 14, cbw ! 15, cbw ! 16]) w
      in emit (CbwOut cbw) w)"

text \<open>
  \<open>send_exec(krnl_addr, parm_addr)\<close>: the second address is stored over bytes 22 to 25,
  the command after it.
\<close>

definition send_exec :: "u32 \<Rightarrow> u32 \<Rightarrow> world \<Rightarrow> world" where
  "send_exec krnl_addr parm_addr w =
     (let r = rand w (nrand w);
          w = w\<lparr>nrand := Suc (nrand w)\<rparr>;
          cbw = replicate USB_BULK_CB_WRAP_LEN 0;
          cbw = USBC @ drop 4 cbw;
          cbw = (if r \<noteq> 0 then SETBE32 cbw 4 r else cbw);
          cbw = (if krnl_addr \<noteq> 0 then SETBE32 cbw 17 krnl_addr else cbw);
          cbw = (if parm_addr \<noteq> 0 then SETBE32 cbw 22 parm_addr else cbw);
          cbw = SETBE32 cbw 12 RKFT_CMD_EXECUTESDRAM
      in emit (CbwOut cbw) w)"

definition send_buf :: "nat \<Rightarrow> world \<Rightarrow> world" where
  "send_buf len w = emit (DataOut (take len (buf w))) w"

text \<open>
  A bulk IN transfer takes the device's next answer, at most \<open>len\<close> bytes of it; the
  return value of the transfer is not looked at, so a short or failed transfer leaves the
  rest of the array as it was.
\<close>

definition next_answer :: "nat \<Rightarrow> world \<Rightarrow> u8 list" where
  "next_answer len w = (case usb_in w of [] \<Rightarrow> [] | d # _ \<Rightarrow> take len d)"

definition recv_csw :: "world \<Rightarrow> world" where
  "recv_csw w = emit CswIn (w\<lparr>usb_in := tl (usb_in w)\<rparr>)"

definition recv_buf :: "nat \<Rightarrow> world \<Rightarrow> world" where
  "recv_buf len w =
     emit (DataIn len) (w\<lparr>buf := store (buf w) 0 (next_answer len w), usb_in := tl (usb_in w)\<rparr>)"

text \<open>
  \<open>read(STDIN_FILENO, ..., count)\<close>: the return value and the bytes read.
  \<open>write(STDOUT_FILENO, data, n)\<close>: the return value; a write of no bytes returns 0.
\<close>

definition read_stdin :: "nat \<Rightarrow> world \<Rightarrow> int \<times> u8 list \<times> world" where
  "read_stdin count w =
     (if stdin w = [] \<or> count = 0 then ((if stdin w = [] \<and> stdin_err w then - 1 else 0), [], w)
      else (int (length (take count (stdin w))), take count (stdin w),
            w\<lparr>stdin := drop count (stdin w)\<rparr>))"

definition write_stdout :: "u8 list \<Rightarrow> world \<Rightarrow> int \<times> world" where
  "write_stdout data w =
     (if stdout_fail w then (- 1, w) else (int (length data), emit (StdoutWrite data) w))"

section \<open>The parameter block\<close>

text \<open>
  \<open>*(uint32_t *)(buf + i)\<close> read and written on the little-endian hosts the tool runs on,
  which is also what the macro \<open>PUT32LE\<close> does.

  Modelled from the spec: \<open>PUT32LE\<close> is a macro of rkcrc.h, which is not among the sources;
  by its name, and by the spec's "little-endian", it stores the 32-bit value low byte first.
\<close>

definition GETLE32 :: "u8 list \<Rightarrow> nat \<Rightarrow> u32" where
  "GETLE32 a i =
     ucast (a ! i) OR push_bit 8 (ucast (a ! (i + 1)))
       OR push_bit 16 (ucast (a ! (i + 2))) OR push_bit 24 (ucast (a ! (i + 3)))"

definition le32 :: "u32 \<Rightarrow> u8 list" where
  "le32 v = [ucast v, ucast (drop_bit 8 v), ucast (drop_bit 16 v), ucast (drop_bit 24 v)]"

definition PUT32LE :: "u8 list \<Rightarrow> nat \<Rightarrow> u32 \<Rightarrow> u8 list" where
  "PUT32LE a i v = store a i (le32 v)"

definition PARM :: "u8 list" where
  "PARM = [0x50, 0x41, 0x52, 0x4d]"

text \<open>
  The checks of \<open>case 'p'\<close> on the block in \<open>buf\<close>, in the order of the source: the length
  field read as an \<open>int\<close>, the length check, the trailer read at \<open>buf + 8 + size\<close> (outside
  the array when \<open>8 + size + 4\<close> exceeds its size), the CRC over \<open>size\<close> bytes from
  \<open>buf + 8\<close>, the comparison. The result is the payload to write to standard output.
  \<open>rkcrc32\<close> (of rkcrc.h, not among the sources) is a parameter.
\<close>

datatype decode_error = LengthViolation | TrailerOutOfBounds | IntegrityError u32 u32

definition decode_parameters ::
  "(u32 \<Rightarrow> u8 list \<Rightarrow> u32) \<Rightarrow> u8 list \<Rightarrow> decode_error + u8 list" where
  "decode_parameters rkcrc32 b =
     (let size = sint (GETLE32 b 4) in
      if size < 0 \<or> size > MAX_PARAM_LENGTH then Inl LengthViolation
      else if RKFT_BLOCKSIZE < 8 + nat size + 4 then Inl TrailerOutOfBounds
      else
        let crc_buf = GETLE32 b (8 + nat size);
            crc = rkcrc32 0 (take (nat size) (drop 8 b))
        in if crc_buf \<noteq> crc then Inl (IntegrityError crc_buf crc)
           else Inr (take (nat size) (drop 8 b)))"

definition case_p :: "(u32 \<Rightarrow> u8 list \<Rightarrow> u32) \<Rightarrow> int \<Rightarrow> u8 \<Rightarrow> world \<Rightarrow> flow \<times> world" where
  "case_p rkcrc32 offset flag w =
     (let w = info (ReadingParametersAt offset) w;
          w = send_cbw RKFT_CMD_READLBA (word_of_int offset) (word_of_int RKFT_OFF_INCR) flag w;
          w = recv_buf RKFT_BLOCKSIZE w;
          w = recv_csw w;
          w = info (ParameterSize (sint (GETLE32 (buf w) 4))) w
      in case decode_parameters rkcrc32 (buf w) of
           Inl LengthViolation \<Rightarrow> (Fatal BadParameterLength, w)
         | Inl TrailerOutOfBounds \<Rightarrow> (BufferOverrun, w)
         | Inl (IntegrityError crc_buf crc) \<Rightarrow> (Fatal (BadCRC crc_buf crc), w)
         | Inr payload \<Rightarrow>
             (let (n, w) = write_stdout payload w
              in if n \<le> 0 then (Fatal WriteError, w) else (Next, w)))"

text \<open>
  The block \<open>case 'P'\<close> builds in \<open>buf\<close> from the \<open>sizeRead\<close> bytes it read: the magic, the
  payload from byte 8, the length at byte 4, the CRC after the payload. The trailer store
  is outside the array when \<open>8 + sizeRead + 4\<close> exceeds its size.
\<close>

definition encode_parameters ::
  "(u32 \<Rightarrow> u8 list \<Rightarrow> u32) \<Rightarrow> u8 list \<Rightarrow> u8 list \<Rightarrow> u8 list option" where
  "encode_parameters rkcrc32 b content =
     (let sizeRead = length content;
          b = store b 0 PARM;
          b = store b 8 content;
          b = PUT32LE b 4 (word_of_nat sizeRead);
          crc = rkcrc32 0 (take sizeRead (drop 8 b))
      in if RKFT_BLOCKSIZE < 8 + sizeRead + 4 then None
         else Some (PUT32LE b (8 + sizeRead) crc))"

text \<open>The loop of \<open>case 'P'\<close> over the eight offsets 0, 0x400, ..., 0x1c00.\<close>

fun write_replicas :: "int list \<Rightarrow> u8 \<Rightarrow> world \<Rightarrow> world" where
  "write_replicas [] flag w = w"
| "write_replicas (offset # rest) flag w =
     (let w = info (WritingAt offset) w;
          w = send_cbw RKFT_CMD_WRITELBA (word_of_int offset) (word_of_int RKFT_OFF_INCR) flag w;
          w = send_buf RKFT_BLOCKSIZE w;
          w = recv_csw w
      in write_replicas rest flag w)"

definition replica_offsets :: "int list" where
  "replica_offsets = [0, 0x400, 0x800, 0xc00, 0x1000, 0x1400, 0x1800, 0x1c00]"

definition case_P :: "(u32 \<Rightarrow> u8 list \<Rightarrow> u32) \<Rightarrow> u8 \<Rightarrow> world \<Rightarrow> flow \<times> world" where
  "case_P rkcrc32 flag w =
     (let (sizeRead, content, w) = read_stdin (RKFT_BLOCKSIZE - 8) w
      in if sizeRead < 0 then (GotoExit, info ReadError (w\<lparr>buf := store (buf w) 0 PARM\<rparr>))
         else
           (case encode_parameters rkcrc32 (buf w) content of
              None \<Rightarrow> (BufferOverrun, w)
            | Some b \<Rightarrow> (Next, info Done (write_replicas replica_offsets flag (w\<lparr>buf := b\<rparr>)))))"

section \<open>The transfer loops of \<open>main\<close>\<close>

text \<open>
  \<open>offset\<close> and \<open>size\<close> are \<open>int\<close> variables. \<open>s32\<close> is the value an \<open>int\<close> holds after an
  addition that leaves its range (two's complement, as the compilers in use give it); a
  loop only subtracts from \<open>size\<close> (here \<open>sz\<close>) while it is positive, which cannot leave the range.
\<close>

definition s32 :: "int \<Rightarrow> int" where
  "s32 x = signed_take_bit 31 x"

text \<open>\<open>memset(s, c, n)\<close>: \<open>n\<close> bytes from \<open>s\<close> set to \<open>c\<close> converted to \<open>unsigned char\<close>.\<close>

definition memset :: "u8 list \<Rightarrow> int \<Rightarrow> nat \<Rightarrow> u8 list" where
  "memset s c n = store s 0 (replicate n (word_of_int c))"

text \<open>\<open>case 'r'\<close>: read flash.\<close>

function read_flash :: "int \<Rightarrow> int \<Rightarrow> u8 \<Rightarrow> world \<Rightarrow> flow \<times> world" where
  "read_flash offset sz flag w =
     (if sz > 0 then
        (let w = info (ReadingAt offset) w;
             w = send_cbw RKFT_CMD_READLBA (word_of_int offset) (word_of_int RKFT_OFF_INCR) flag w;
             w = recv_buf RKFT_BLOCKSIZE w;
             w = recv_csw w;
             (n, w) = write_stdout (take RKFT_BLOCKSIZE (buf w)) w
         in if n \<le> 0 then (Fatal WriteError, w)
            else read_flash (s32 (offset + RKFT_OFF_INCR)) (sz - RKFT_OFF_INCR) flag w)
      else (Next, info Done w))"
  by pat_completeness auto
termination
  by (relation "measure (\<lambda>(offset, sz, flag, w). nat sz)")
    (auto simp add: RKFT_OFF_INCR_def RKFT_BLOCKSIZE_def drop_bit_eq_div)

text \<open>\<open>case 'w'\<close>: write flash.\<close>

function write_flash :: "int \<Rightarrow> int \<Rightarrow> u8 \<Rightarrow> world \<Rightarrow> flow \<times> world" where
  "write_flash offset sz flag w =
     (if sz > 0 then
        (let w = info (WritingAt offset) w;
             (n, content, w) = read_stdin RKFT_BLOCKSIZE w
         in if n \<le> 0 then (GotoExit, info PrematureEndOfFile (info Done w))
            else
              (let w = w\<lparr>buf := store (buf w) 0 content\<rparr>;
                   w = send_cbw RKFT_CMD_WRITELBA (word_of_int offset) (word_of_int RKFT_OFF_INCR) flag w;
                   w = send_buf RKFT_BLOCKSIZE w;
                   w = recv_csw w
               in write_flash (s32 (offset + RKFT_OFF_INCR)) (sz - RKFT_OFF_INCR) flag w))
      else (Next, info Done w))"
  by pat_completeness auto
termination
  by (relation "measure (\<lambda>(offset, sz, flag, w). nat sz)")
    (auto simp add: RKFT_OFF_INCR_def RKFT_BLOCKSIZE_def drop_bit_eq_div)

text \<open>\<open>case 'e'\<close>: erase flash; the loop after \<open>memset(buf, 0xff, RKFT_BLOCKSIZE)\<close>.\<close>

function erase_loop :: "int \<Rightarrow> int \<Rightarrow> u8 \<Rightarrow> world \<Rightarrow> flow \<times> world" where
  "erase_loop offset sz flag w =
     (if sz > 0 then
        (let w = info (ErasingAt offset) w;
             w = send_cbw RKFT_CMD_WRITELBA (word_of_int offset) (word_of_int RKFT_OFF_INCR) flag w;
             w = send_buf RKFT_BLOCKSIZE w;
             w = recv_csw w
         in erase_loop (s32 (offset + RKFT_OFF_INCR)) (sz - RKFT_OFF_INCR) flag w)
      else (Next, info Done w))"
  by pat_completeness auto
termination
  by (relation "measure (\<lambda>(offset, sz, flag, w). nat sz)")
    (auto simp add: RKFT_OFF_INCR_def RKFT_BLOCKSIZE_def drop_bit_eq_div)

definition erase_flash :: "int \<Rightarrow> int \<Rightarrow> u8 \<Rightarrow> world \<Rightarrow> flow \<times> world" where
  "erase_flash offset sz flag w =
     erase_loop offset sz flag (w\<lparr>buf := memset (buf w) 0xff RKFT_BLOCKSIZE\<rparr>)"

text \<open>\<open>case 'm'\<close>: read RAM.\<close>

function read_sdram :: "int \<Rightarrow> int \<Rightarrow> u8 \<Rightarrow> world \<Rightarrow> flow \<times> world" where
  "read_sdram offset sz flag w =
     (if sz > 0 then
        (let sizeRead = (if sz > int RKFT_BLOCKSIZE then int RKFT_BLOCKSIZE else sz);
             w = info (ReadingMemoryAt offset sizeRead) w;
             w = send_cbw RKFT_CMD_READSDRAM (word_of_int (offset - SDRAM_BASE_ADDRESS))
                   (word_of_int sizeRead) flag w;
             w = recv_buf (nat sizeRead) w;
             w = recv_csw w;
             (n, w) = write_stdout (take (nat sizeRead) (buf w)) w
         in if n \<le> 0 then (Fatal WriteError, w)
            else read_sdram (s32 (offset + sizeRead)) (sz - sizeRead) flag w)
      else (Next, info Done w))"
  by pat_completeness auto
termination
  by (relation "measure (\<lambda>(offset, sz, flag, w). nat sz)")
    (auto simp add: RKFT_BLOCKSIZE_def)

text \<open>\<open>case 'M'\<close>: write RAM.\<close>

function write_sdram :: "int \<Rightarrow> int \<Rightarrow> u8 \<Rightarrow> world \<Rightarrow> flow \<times> world" where
  "write_sdram offset sz flag w =
     (if sz > 0 then
        (let (sizeRead, content, w) = read_stdin RKFT_BLOCKSIZE w
         in if sizeRead \<le> 0 then (GotoExit, info PrematureEndOfFile w)
            else
              (let w = w\<lparr>buf := store (buf w) 0 content\<rparr>;
                   w = info (WritingMemoryAt offset sizeRead) w;
                   w = send_cbw RKFT_CMD_WRITESDRAM (word_of_int (offset - SDRAM_BASE_ADDRESS))
                         (word_of_int sizeRead) flag w;
                   w = send_buf (nat sizeRead) w;
                   w = recv_csw w
               in write_sdram (s32 (offset + sizeRead)) (sz - sizeRead) flag w))
      else (Next, info Done w))"
  by pat_completeness auto
termination
  by (relation "measure (\<lambda>(offset, sz, flag, w). nat sz)") auto

text \<open>
  \<open>case 'i'\<close>: read ID blocks. A window of \<open>RKFT_IDB_INCR\<close> blocks asks for
  \<open>0x210 * 0x20\<close> bytes, more than \<open>buf\<close> holds: an answer longer than the array is
  written past its end.
\<close>

function read_idb :: "int \<Rightarrow> int \<Rightarrow> u8 \<Rightarrow> world \<Rightarrow> flow \<times> world" where
  "read_idb offset sz flag w =
     (if sz > 0 then
        (let sizeRead = (if sz > RKFT_IDB_INCR then RKFT_IDB_INCR else sz);
             w = info (ReadingIDBAt offset) w;
             w = send_cbw RKFT_CMD_READSECTOR (word_of_int offset) (word_of_int sizeRead) flag w
         in if RKFT_BLOCKSIZE < length (next_answer (RKFT_IDB_BLOCKSIZE * nat sizeRead) w)
            then (BufferOverrun, w)
            else
              (let w = recv_buf (RKFT_IDB_BLOCKSIZE * nat sizeRead) w;
                   w = recv_csw w;
                   (n, w) = write_stdout (take (RKFT_IDB_BLOCKSIZE * nat sizeRead) (buf w)) w
               in if n \<le> 0 then (Fatal WriteError, w)
                  else read_idb (s32 (offset + sizeRead)) (sz - sizeRead) flag w))
      else (Next, info Done w))"
  by pat_completeness auto
termination
  by (relation "measure (\<lambda>(offset, sz, flag, w). nat sz)")
    (auto simp add: RKFT_IDB_INCR_def)

text \<open>
  \<open>case 'j'\<close>: write ID blocks. The call is \<open>memset(ibuf, RKFT_IDB_BLOCKSIZE, 0xff)\<close>,
  with its arguments in this order.
\<close>

function write_idb :: "int \<Rightarrow> int \<Rightarrow> u8 \<Rightarrow> world \<Rightarrow> flow \<times> world" where
  "write_idb offset sz flag w =
     (if sz > 0 then
        (let w = info (WritingIDBAt offset) w;
             w = w\<lparr>ibuf := memset (ibuf w) (int RKFT_IDB_BLOCKSIZE) 0xff\<rparr>;
             (n, content, w) = read_stdin RKFT_IDB_DATASIZE w
         in if n \<le> 0 then (GotoExit, info PrematureEndOfFile (info Done w))
            else
              (let w = w\<lparr>ibuf := store (ibuf w) 0 content\<rparr>;
                   w = send_cbw RKFT_CMD_WRITESECTOR (word_of_int offset) 1 flag w;
                   w = emit (DataOut (take RKFT_IDB_BLOCKSIZE (ibuf w))) w;
                   w = recv_csw w
               in write_idb (s32 (offset + 1)) (sz - 1) flag w))
      else (Next, info Done w))"
  by pat_completeness auto
termination
  by (relation "measure (\<lambda>(offset, sz, flag, w). nat sz)") auto

section \<open>The boot-stage loaders: \<open>case 'l'\<close> and \<open>case 'L'\<close>\<close>

text \<open>
  The \<open>while\<close> loop: full chunks of 4096 bytes are added to the CRC and sent by a vendor
  control transfer with the given \<open>wIndex\<close>; it returns the result of the read that ended
  it. \<open>rkcrc16\<close> (of rkcrc.h, not among the sources) is a parameter.
\<close>

function load_chunks ::
  "(u16 \<Rightarrow> u8 list \<Rightarrow> u16) \<Rightarrow> nat \<Rightarrow> u16 \<Rightarrow> world \<Rightarrow> int \<times> u16 \<times> world" where
  "load_chunks rkcrc16 idx crc16 w =
     (let (nr, content, w') = read_stdin 4096 w;
          w' = w'\<lparr>buf := store (buf w') 0 content\<rparr>
      in if nr = 4096 then
           (let crc16 = rkcrc16 crc16 (take (nat nr) (buf w'));
                w' = emit (ControlOut idx (take (nat nr) (buf w'))) w'
            in load_chunks rkcrc16 idx crc16 w')
         else (nr, crc16, w'))"
  by pat_completeness auto
termination
  by (relation "measure (\<lambda>(rkcrc16, idx, crc16, w). length (stdin w))")
    (auto simp add: read_stdin_def emit_def split: if_splits)

definition load :: "(u16 \<Rightarrow> u8 list \<Rightarrow> u16) \<Rightarrow> nat \<Rightarrow> world \<Rightarrow> flow \<times> world" where
  "load rkcrc16 idx w =
     (let (nr, crc16, w) = load_chunks rkcrc16 idx 0xffff w
      in if nr \<noteq> - 1 then
           (let crc16 = rkcrc16 crc16 (take (nat nr) (buf w));
                w = w\<lparr>buf := (buf w)[nat nr := ucast (drop_bit 8 crc16)]\<rparr>;
                w = w\<lparr>buf := (buf w)[nat nr + 1 := ucast (crc16 AND 0xff)]\<rparr>;
                w = emit (ControlOut idx (take (nat nr + 2) (buf w))) w
            in (GotoExit, w))
         else (GotoExit, w))"

definition case_l :: "(u16 \<Rightarrow> u8 list \<Rightarrow> u16) \<Rightarrow> world \<Rightarrow> flow \<times> world" where
  "case_l rkcrc16 w = load rkcrc16 1137 (info LoadDDRInit w)"

definition case_L :: "(u16 \<Rightarrow> u8 list \<Rightarrow> u16) \<Rightarrow> world \<Rightarrow> flow \<times> world" where
  "case_L rkcrc16 w = load rkcrc16 1138 (info LoadUSBLoader w)"

section \<open>Partition lookup\<close>

text \<open>
  The C library's string functions on the text of a NUL-terminated string, with
  positions for pointers: \<open>strstr\<close> gives the position of the first occurrence,
  \<open>strrchr\<close> that of the last.
\<close>

fun strstr :: "string \<Rightarrow> string \<Rightarrow> nat option" where
  "strstr [] needle = (if needle = [] then Some 0 else None)"
| "strstr (c # cs) needle =
     (if take (length needle) (c # cs) = needle then Some 0
      else map_option Suc (strstr cs needle))"

fun strrchr :: "string \<Rightarrow> char \<Rightarrow> nat option" where
  "strrchr [] c = None"
| "strrchr (x # xs) c =
     (case strrchr xs c of
        Some i \<Rightarrow> Some (Suc i)
      | None \<Rightarrow> if x = c then Some 0 else None)"

text \<open>
  \<open>strtoul(s, NULL, 0)\<close>: white space, an optional sign, then a number that is
  hexadecimal after "0x" or "0X", octal after "0", decimal otherwise, read as far as its
  digits go. The result is an \<open>unsigned long\<close> of 64 bits: too large a number gives
  \<open>ULONG_MAX\<close>, a minus sign negates modulo \<open>ULONG_MAX + 1\<close>.
\<close>

definition isspace :: "char \<Rightarrow> bool" where
  "isspace c = (c \<in> {CHR '' '', CHR 0x09, CHR 0x0a, CHR 0x0b, CHR 0x0c, CHR 0x0d})"

definition digit_of :: "char \<Rightarrow> nat option" where
  "digit_of c =
     (let k = (of_char c :: nat) in
      if 48 \<le> k \<and> k \<le> 57 then Some (k - 48)
      else if 97 \<le> k \<and> k \<le> 122 then Some (k - 87)
      else if 65 \<le> k \<and> k \<le> 90 then Some (k - 55)
      else None)"

fun digits_value :: "nat \<Rightarrow> nat \<Rightarrow> string \<Rightarrow> nat" where
  "digits_value base acc [] = acc"
| "digits_value base acc (c # cs) =
     (case digit_of c of
        None \<Rightarrow> acc
      | Some d \<Rightarrow> if d < base then digits_value base (acc * base + d) cs else acc)"

definition is_digit_in :: "nat \<Rightarrow> string \<Rightarrow> bool" where
  "is_digit_in base s =
     (case s of [] \<Rightarrow> False
      | c # _ \<Rightarrow> (case digit_of c of None \<Rightarrow> False | Some d \<Rightarrow> d < base))"

definition ULONG_MAX :: nat where
  "ULONG_MAX = 0xffffffffffffffff"

definition strtoul :: "string \<Rightarrow> nat" where
  "strtoul s =
     (let s = dropWhile isspace s;
          neg = (take 1 s = ''-'');
          s = (if take 1 s = ''-'' \<or> take 1 s = ''+'' then drop 1 s else s);
          v = (if (take 2 s = ''0x'' \<or> take 2 s = ''0X'') \<and> is_digit_in 16 (drop 2 s)
               then digits_value 16 0 (drop 2 s)
               else if take 1 s = ''0'' then digits_value 8 0 s
               else digits_value 10 0 s);
          v = (if ULONG_MAX < v then ULONG_MAX else v)
      in if neg then (ULONG_MAX + 1 - v) mod (ULONG_MAX + 1) else v)"

text \<open>The assignment of the \<open>unsigned long\<close> to an \<open>int\<close> keeps its low 32 bits.\<close>

definition strtoul_int :: "string \<Rightarrow> int" where
  "strtoul_int s = s32 (int (strtoul s))"

text \<open>
  What the string handling of the partition lookup finds in the parameter text \<open>param\<close>
  (the string at \<open>buf + 8\<close>) for \<open>partname\<close>: the position \<open>m\<close> of "mtdparts=" in the
  text, the position \<open>p\<close> of the bracketed name after \<open>m\<close>, the position \<open>a\<close> of the last
  '@' before it, the offset, and the size or that the partition runs to the end of the
  NAND. Writing NUL at \<open>par\<close> and at \<open>arob\<close> ends the string there: \<open>take\<close>.
\<close>

text \<open>\<open>snprintf(partexp, 256, "(%s)", partname)\<close>: at most 255 characters are kept.\<close>

definition partexp :: "string \<Rightarrow> string" where
  "partexp partname = take 255 (''('' @ partname @ '')'')"

datatype scan =
    NoMtdparts
  | NoPartition nat
  | NoAtSign nat nat
  | ToEndOfNand nat nat nat int
  | SizeFound nat nat nat int int
  | NoSize nat nat nat int

definition partition_scan :: "string \<Rightarrow> string \<Rightarrow> scan" where
  "partition_scan param partname =
     (case strstr param ''mtdparts='' of
        None \<Rightarrow> NoMtdparts
      | Some m \<Rightarrow>
          (let mtdparts = drop m param
           in case strstr mtdparts (partexp partname) of
                None \<Rightarrow> NoPartition m
              | Some p \<Rightarrow>
                  (let mtdparts = take p mtdparts
                   in case strrchr mtdparts (CHR ''@'') of
                        None \<Rightarrow> NoAtSign m p
                      | Some a \<Rightarrow>
                          (let offset = strtoul_int (drop (Suc a) mtdparts);
                               mtdparts = take a mtdparts
                           in if strrchr mtdparts (CHR ''-'') \<noteq> None
                              then ToEndOfNand m p a offset
                              else
                                (case strrchr mtdparts (CHR '','') of
                                   Some c \<Rightarrow>
                                     SizeFound m p a offset (strtoul_int (drop (Suc c) mtdparts))
                                 | None \<Rightarrow>
                                     (case strrchr mtdparts (CHR '':'') of
                                        Some c \<Rightarrow>
                                          SizeFound m p a offset
                                            (strtoul_int (drop (Suc c) mtdparts))
                                      | None \<Rightarrow> NoSize m p a offset))))))"

text \<open>The string at \<open>buf + 8\<close>: the bytes up to the first NUL, as characters.\<close>

definition param_text :: "u8 list \<Rightarrow> string" where
  "param_text b = map (\<lambda>x. char_of (unat x)) (takeWhile (\<lambda>x. x \<noteq> 0) (drop 8 b))"

text \<open>
  The block \<open>if (partname) { ... }\<close> of \<open>main\<close>: it returns how it ends and the values of
  \<open>offset\<close> and \<open>size\<close>. \<open>nand->flash_size\<close> is the 32-bit value at the start of the
  answer to \<open>RKFT_CMD_READFLASHINFO\<close>; the subtraction is unsigned and stored in an \<open>int\<close>.
\<close>

definition resolve_partition ::
  "string \<Rightarrow> u8 \<Rightarrow> world \<Rightarrow> flow \<times> int \<times> int \<times> world" where
  "resolve_partition partname flag w =
     (let w = info (WorkingWithPartition partname) w;
          w = send_cbw RKFT_CMD_READLBA 0 (word_of_int RKFT_OFF_INCR) flag w;
          w = recv_buf RKFT_BLOCKSIZE w;
          w = recv_csw w;
          sz = sint (GETLE32 (buf w) 4)
      in if sz < 0 \<or> sz > MAX_PARAM_LENGTH then (Fatal BadDataLength, 0, sz, w)
         else
           (let param = param_text (buf w) in
            case partition_scan param partname of
              NoMtdparts \<Rightarrow> (GotoExit, 0, sz, info MtdpartsNotFound w)
            | NoPartition m \<Rightarrow>
                (GotoExit, 0, sz,
                 info (PartitionNotFound partname) (info (MtdpartsText (drop m param)) w))
            | NoAtSign m p \<Rightarrow>
                (let w = info (MtdpartsText (drop m param)) w;
                     w = info (PartitionText (drop (m + p) param)) w;
                     w = w\<lparr>buf := (buf w)[8 + m + p := 0]\<rparr>
                 in (GotoExit, 0, sz, info BadSyntaxMtdparts w))
            | ToEndOfNand m p a offset \<Rightarrow>
                (let w = info (MtdpartsText (drop m param)) w;
                     w = info (PartitionText (drop (m + p) param)) w;
                     w = w\<lparr>buf := (buf w)[8 + m + p := 0]\<rparr>;
                     w = info (FoundOffset offset) w;
                     w = w\<lparr>buf := (buf w)[8 + m + a := 0]\<rparr>;
                     w = send_cbw RKFT_CMD_READFLASHINFO 0 0 flag w;
                     w = recv_buf 512 w;
                     w = recv_csw w;
                     sz = s32 (uint (GETLE32 (buf w) 0) - offset);
                     w = info (ExtendsToEndOfNand sz) w
                 in (Next, offset, sz, w))
            | SizeFound m p a offset sz \<Rightarrow>
                (let w = info (MtdpartsText (drop m param)) w;
                     w = info (PartitionText (drop (m + p) param)) w;
                     w = w\<lparr>buf := (buf w)[8 + m + p := 0]\<rparr>;
                     w = info (FoundOffset offset) w;
                     w = w\<lparr>buf := (buf w)[8 + m + a := 0]\<rparr>;
                     w = info (FoundSize sz) w
                 in (Next, offset, sz, w))
            | NoSize m p a offset \<Rightarrow>
                (let w = info (MtdpartsText (drop m param)) w;
                     w = info (PartitionText (drop (m + p) param)) w;
                     w = w\<lparr>buf := (buf w)[8 + m + p := 0]\<rparr>;
                     w = info (FoundOffset offset) w;
                     w = w\<lparr>buf := (buf w)[8 + m + a := 0]\<rparr>
                 in (GotoExit, offset, sz, info BadSyntaxSize w))))"

text \<open>
  The message for each way the lookup fails, and the bytes of a text as they lie in
  \<open>buf\<close>.
\<close>

definition failure_message :: "string \<Rightarrow> scan \<Rightarrow> message option" where
  "failure_message partname sc =
     (case sc of
        NoMtdparts \<Rightarrow> Some MtdpartsNotFound
      | NoPartition m \<Rightarrow> Some (PartitionNotFound partname)
      | NoAtSign m p \<Rightarrow> Some BadSyntaxMtdparts
      | NoSize m p a offset \<Rightarrow> Some BadSyntaxSize
      | ToEndOfNand m p a offset \<Rightarrow> None
      | SizeFound m p a offset sz \<Rightarrow> None)"

definition bytes_of :: "string \<Rightarrow> u8 list" where
  "bytes_of s = map of_char s"

section \<open>\<open>main\<close> after the arguments are parsed and the device is open\<close>

text \<open>The short cases of the second \<open>switch\<close>.\<close>

definition case_b :: "u8 \<Rightarrow> world \<Rightarrow> flow \<times> world" where
  "case_b flag w =
     (let w = info Rebooting w;
          w = send_cbw RKFT_CMD_RESETDEVICE 0 0 flag w
      in (Next, recv_csw w))"

definition case_B :: "int \<Rightarrow> int \<Rightarrow> world \<Rightarrow> flow \<times> world" where
  "case_B offset sz w =
     (let w = info Booting w;
          w = send_exec (word_of_int (offset - SDRAM_BASE_ADDRESS))
                (word_of_int (sz - SDRAM_BASE_ADDRESS)) w
      in (Next, recv_csw w))"

definition case_v :: "u8 \<Rightarrow> world \<Rightarrow> flow \<times> world" where
  "case_v flag w =
     (let w = send_cbw RKFT_CMD_READCHIPINFO 0 0 flag w;
          w = recv_buf 16 w;
          w = recv_csw w
      in (Next, info (ChipVersion (take 16 (buf w))) w))"

definition case_n :: "u8 \<Rightarrow> world \<Rightarrow> flow \<times> world" where
  "case_n flag w =
     (let w = send_cbw RKFT_CMD_READFLASHID 0 0 flag w;
          w = recv_buf 5 w;
          w = recv_csw w;
          w = info (FlashID (take 5 (buf w))) w;
          w = send_cbw RKFT_CMD_READFLASHINFO 0 0 flag w;
          w = recv_buf 512 w;
          w = recv_csw w
      in (Next, info (FlashInfo (take 11 (buf w))) w))"

text \<open>The second \<open>switch (action)\<close>, at the label \<open>action\<close>.\<close>

definition dispatch ::
  "(u32 \<Rightarrow> u8 list \<Rightarrow> u32) \<Rightarrow> char \<Rightarrow> int \<Rightarrow> int \<Rightarrow> u8 \<Rightarrow> world \<Rightarrow> flow \<times> world" where
  "dispatch rkcrc32 action offset sz flag w =
     (if action = CHR ''b'' then case_b flag w
      else if action = CHR ''r'' then read_flash offset sz flag w
      else if action = CHR ''w'' then write_flash offset sz flag w
      else if action = CHR ''p'' then case_p rkcrc32 offset flag w
      else if action = CHR ''P'' then case_P rkcrc32 flag w
      else if action = CHR ''m'' then read_sdram offset sz flag w
      else if action = CHR ''M'' then write_sdram offset sz flag w
      else if action = CHR ''B'' then case_B offset sz w
      else if action = CHR ''i'' then read_idb offset sz flag w
      else if action = CHR ''j'' then write_idb offset sz flag w
      else if action = CHR ''e'' then erase_flash offset sz flag w
      else if action = CHR ''v'' then case_v flag w
      else if action = CHR ''n'' then case_n flag w
      else (Next, w))"

text \<open>
  How the process ends: through the label \<open>exit\<close>, which releases and closes the device
  and returns 0; through \<open>fatal\<close>, which exits with 1 at once; or not followed further
  after an access outside an array.
\<close>

datatype status = Exited int | Undefined

definition finish :: "flow \<times> world \<Rightarrow> status \<times> world" where
  "finish r =
     (case r of
        (Next, w) \<Rightarrow> (Exited 0, emit Teardown w)
      | (GotoExit, w) \<Rightarrow> (Exited 0, emit Teardown w)
      | (Fatal m, w) \<Rightarrow> (Exited 1, w)
      | (BufferOverrun, w) \<Rightarrow> (Undefined, w))"

text \<open>
  \<open>main\<close> from the first \<open>switch\<close> on the device on: \<open>action\<close>, \<open>partname\<close> (\<open>None\<close> for
  \<open>NULL\<close>), \<open>offset\<close>, \<open>size\<close> and \<open>flag\<close> are as the argument parsing left them.
\<close>

definition main ::
  "(u16 \<Rightarrow> u8 list \<Rightarrow> u16) \<Rightarrow> (u32 \<Rightarrow> u8 list \<Rightarrow> u32) \<Rightarrow>
   char \<Rightarrow> string option \<Rightarrow> int \<Rightarrow> int \<Rightarrow> u8 \<Rightarrow> world \<Rightarrow> status \<times> world" where
  "main rkcrc16 rkcrc32 action partname offset sz flag w =
     (if action = CHR ''l'' then finish (case_l rkcrc16 w)
      else if action = CHR ''L'' then finish (case_L rkcrc16 w)
      else
        (let w = send_cbw RKFT_CMD_TESTUNITREADY 0 0 flag w;
             w = recv_csw w;
             w = emit Usleep w
         in case partname of
              None \<Rightarrow> finish (dispatch rkcrc32 action offset sz flag w)
            | Some name \<Rightarrow>
                (case resolve_partition name flag w of
                   (Next, offset, sz, w) \<Rightarrow> finish (dispatch rkcrc32 action offset sz flag w)
                 | (fl, offset, sz, w) \<Rightarrow> finish (fl, w))))"

section \<open>Reading a trace\<close>

definition frames_sent :: "event list \<Rightarrow> u8 list list" where
  "frames_sent t = concat (map (\<lambda>e. case e of CbwOut f \<Rightarrow> [f] | _ \<Rightarrow> []) t)"

definition data_sent :: "event list \<Rightarrow> u8 list list" where
  "data_sent t = concat (map (\<lambda>e. case e of DataOut d \<Rightarrow> [d] | _ \<Rightarrow> []) t)"

definition data_requested :: "event list \<Rightarrow> nat list" where
  "data_requested t = concat (map (\<lambda>e. case e of DataIn n \<Rightarrow> [n] | _ \<Rightarrow> []) t)"

definition stdout_written :: "event list \<Rightarrow> u8 list list" where
  "stdout_written t = concat (map (\<lambda>e. case e of StdoutWrite d \<Rightarrow> [d] | _ \<Rightarrow> []) t)"

definition control_sent :: "event list \<Rightarrow> (nat \<times> u8 list) list" where
  "control_sent t = concat (map (\<lambda>e. case e of ControlOut i d \<Rightarrow> [(i, d)] | _ \<Rightarrow> []) t)"

definition messages :: "event list \<Rightarrow> message list" where
  "messages t = concat (map (\<lambda>e. case e of Info m \<Rightarrow> [m] | _ \<Rightarrow> []) t)"

text \<open>
  The commands that change the device: those of the source's table whose flags byte is
  0x00 (host to device), as opposed to 0x80.
\<close>

definition mutating :: "u32 \<Rightarrow> bool" where
  "mutating command = (command AND 0x80000000 = 0)"

section \<open>The windowing rule of the specification\<close>

text \<open>
  The block transfer rule as the specification words it: while \<open>totalCount > 0\<close> the
  window is \<open>min totalCount maxWindow\<close>, the offset advances by the window and the count
  decreases by it. \<open>spec_windows\<close> lists the windows, \<open>spec_offsets\<close> the offset of each.
\<close>

function spec_windows :: "int \<Rightarrow> int \<Rightarrow> int list" where
  "spec_windows totalCount maxWindow =
     (if totalCount > 0 \<and> maxWindow > 0
      then min totalCount maxWindow # spec_windows (totalCount - min totalCount maxWindow) maxWindow
      else [])"
  by pat_completeness auto
termination
  by (relation "measure (\<lambda>(totalCount, maxWindow). nat totalCount)") auto




text \<open>An input cut into pieces of \<open>n\<close> bytes, the last one possibly shorter.\<close>

function chunks :: "nat \<Rightarrow> u8 list \<Rightarrow> u8 list list" where
  "chunks n xs = (if n = 0 \<or> xs = [] then [] else take n xs # chunks n (drop n xs))"
  by pat_completeness auto
termination
  by (relation "measure (\<lambda>(n, xs). length xs)") auto

section \<open>Stand-ins for the CRC functions\<close>



section \<open>Properties of the command frame\<close>

lemma ucast_and_ff32: "(ucast ((w::u32) AND 0xff) :: u8) = ucast w"
proof -
  have *: "(0xff::u32) = mask 8" by (simp add: mask_eq_exp_minus_1)
  show ?thesis unfolding *
    by (rule bit_word_eqI) (auto simp add: bit_simps)
qed

lemma ucast_and_ff16: "(ucast ((w::u16) AND 0xff) :: u8) = ucast w"
proof -
  have *: "(0xff::u16) = mask 8" by (simp add: mask_eq_exp_minus_1)
  show ?thesis unfolding *
    by (rule bit_word_eqI) (auto simp add: bit_simps)
qed

lemma be32_join:
  "push_bit 24 (ucast (ucast (drop_bit 24 v) :: u8)) OR push_bit 16 (ucast (ucast (drop_bit 16 v) :: u8))
     OR push_bit 8 (ucast (ucast (drop_bit 8 v) :: u8)) OR ucast (ucast v :: u8) = (v::u32)"
  (is "?w = v")
proof (rule bit_word_eqI)
  fix n assume n: "n < LENGTH(32)"
  consider "n < 8" | "8 \<le> n" "n < 16" | "16 \<le> n" "n < 24" | "24 \<le> n" by linarith
  then show "bit ?w n = bit v n"
  proof cases
    case 1 then show ?thesis using n by (auto simp add: bit_simps)
  next
    case 2 then show ?thesis using n by (auto simp add: bit_simps)
  next
    case 3 then show ?thesis using n by (auto simp add: bit_simps)
  next
    case 4 then show ?thesis using n by (auto simp add: bit_simps)
  qed
qed

lemma be16_join:
  "push_bit 8 (ucast (ucast (drop_bit 8 v) :: u8)) OR ucast (ucast v :: u8) = (v::u16)"
  (is "?w = v")
proof (rule bit_word_eqI)
  fix n assume n: "n < LENGTH(16)"
  consider "n < 8" | "8 \<le> n" by linarith
  then show "bit ?w n = bit v n"
  proof cases
    case 1 then show ?thesis using n by (auto simp add: bit_simps)
  next
    case 2 then show ?thesis using n by (auto simp add: bit_simps)
  qed
qed

lemma zeros31:
  "replicate 31 (0::u8) =
     [0,0,0,0,0,0,0,0,0,0,0,0,0,0,0,0,0,0,0,0,0,0,0,0,0,0,0,0,0,0,0]"
  by (simp add: numeral_eq_Suc)

lemma cbw_frame_bytes:
  "cbw_frame r c off n fl =
     [0x55, 0x53, 0x42, 0x43,
      ucast (drop_bit 24 r), ucast (drop_bit 16 r), ucast (drop_bit 8 r), ucast r,
      0, 0, 0, 0,
      ucast (drop_bit 24 c), ucast (drop_bit 16 c), ucast (drop_bit 8 c), ucast c,
      fl,
      ucast (drop_bit 24 off), ucast (drop_bit 16 off), ucast (drop_bit 8 off), ucast off,
      0,
      ucast (drop_bit 8 n), ucast n,
      0, 0, 0, 0, 0, 0, 0]"
  unfolding cbw_frame_def USBC_def USB_BULK_CB_WRAP_LEN_def SETBE32_def SETBE16_def Let_def
    zeros31 ucast_and_ff32 ucast_and_ff16
  by simp

lemma length_cbw_frame [simp]: "length (cbw_frame r c off n fl) = 31"
  by (simp add: cbw_frame_bytes)

lemma frame_command_cbw_frame [simp]: "frame_command (cbw_frame r c off n fl) = c"
  by (simp add: cbw_frame_bytes frame_command_def GETBE32_def be32_join)

lemma frame_offset_cbw_frame [simp]: "frame_offset (cbw_frame r c off n fl) = off"
  by (simp add: cbw_frame_bytes frame_offset_def GETBE32_def be32_join)

lemma frame_nsectors_cbw_frame [simp]: "frame_nsectors (cbw_frame r c off n fl) = n"
  by (simp add: cbw_frame_bytes frame_nsectors_def GETBE16_def be16_join)

lemma frame_flag_cbw_frame [simp]: "frame_flag (cbw_frame r c off n fl) = fl"
  by (simp add: cbw_frame_bytes frame_flag_def)

lemma frame_tag_cbw_frame [simp]: "frame_tag (cbw_frame r c off n fl) = r"
  by (simp add: cbw_frame_bytes frame_tag_def GETBE32_def be32_join)

text \<open>
  Claim C5. For every tag, opcode, offset, length and mode flag, \<open>send_cbw\<close> builds a frame
  of 31 bytes: the signature "USBC" at byte 0, the tag big-endian at byte 4, the opcode
  big-endian at byte 12, the mode flag at byte 16, the offset big-endian over four bytes at
  byte 17, the length big-endian over two bytes at byte 22, and zero everywhere else. A
  field that is zero is not written and its bytes stay zero, and reading the fields back
  from the frame gives the values that went in.
\<close>

theorem C5_command_frame_layout:
  "length (cbw_frame r c off n fl) = 31
   \<and> cbw_frame r c off n fl =
       USBC
       @ [ucast (drop_bit 24 r), ucast (drop_bit 16 r), ucast (drop_bit 8 r), ucast r]
       @ [0, 0, 0, 0]
       @ [ucast (drop_bit 24 c), ucast (drop_bit 16 c), ucast (drop_bit 8 c), ucast c]
       @ [fl]
       @ [ucast (drop_bit 24 off), ucast (drop_bit 16 off), ucast (drop_bit 8 off), ucast off]
       @ [0]
       @ [ucast (drop_bit 8 n), ucast n]
       @ [0, 0, 0, 0, 0, 0, 0]
   \<and> take 4 (drop 17 (cbw_frame r c 0 n fl)) = [0, 0, 0, 0]
   \<and> take 2 (drop 22 (cbw_frame r c off 0 fl)) = [0, 0]
   \<and> cbw_frame r c off n 0 ! 16 = 0
   \<and> frame_tag (cbw_frame r c off n fl) = r
   \<and> frame_command (cbw_frame r c off n fl) = c
   \<and> frame_flag (cbw_frame r c off n fl) = fl
   \<and> frame_offset (cbw_frame r c off n fl) = off
   \<and> frame_nsectors (cbw_frame r c off n fl) = n"
  apply (simp only: frame_tag_cbw_frame frame_command_cbw_frame frame_flag_cbw_frame
      frame_offset_cbw_frame frame_nsectors_cbw_frame length_cbw_frame)
  apply (simp add: cbw_frame_bytes USBC_def)
  done

section \<open>Properties of the parameter block\<close>

lemma le32_join:
  "ucast (ucast v :: u8) OR push_bit 8 (ucast (ucast (drop_bit 8 v) :: u8))
     OR push_bit 16 (ucast (ucast (drop_bit 16 v) :: u8))
     OR push_bit 24 (ucast (ucast (drop_bit 24 v) :: u8)) = (v::u32)"
  (is "?w = v")
proof (rule bit_word_eqI)
  fix n assume n: "n < LENGTH(32)"
  consider "n < 8" | "8 \<le> n" "n < 16" | "16 \<le> n" "n < 24" | "24 \<le> n" by linarith
  then show "bit ?w n = bit v n"
  proof cases
    case 1 then show ?thesis using n by (auto simp add: bit_simps)
  next
    case 2 then show ?thesis using n by (auto simp add: bit_simps)
  next
    case 3 then show ?thesis using n by (auto simp add: bit_simps)
  next
    case 4 then show ?thesis using n by (auto simp add: bit_simps)
  qed
qed

lemma length_store: "i + length xs \<le> length a \<Longrightarrow> length (store a i xs) = length a"
  by (simp add: store_def)

lemma GETLE32_append:
  "length pre = i \<Longrightarrow> GETLE32 (pre @ [b0, b1, b2, b3] @ post) i
     = ucast b0 OR push_bit 8 (ucast b1) OR push_bit 16 (ucast b2) OR push_bit 24 (ucast b3)"
  by (simp add: GETLE32_def nth_append)

lemma GETLE32_le32: "length pre = i \<Longrightarrow> GETLE32 (pre @ le32 v @ post) i = v"
  unfolding le32_def by (simp only: GETLE32_append le32_join)


lemma length_le32 [simp]: "length (le32 v) = 4"
  by (simp add: le32_def)

lemma length_PARM [simp]: "length PARM = 4"
  by (simp add: PARM_def)





lemma sint32_cases:
  fixes w :: "32 word"
  shows "sint w = (if uint w < 2 ^ 31 then uint w else uint w - 2 ^ 32)"
proof -
  have b: "uint w < 2 ^ 32" using uint_bounded [of w] by simp
  have "bit (uint w) 31 \<longleftrightarrow> 2 ^ 31 \<le> uint w"
  proof -
    have "uint w div 2 ^ 31 = (if 2 ^ 31 \<le> uint w then 1 else 0)"
      using b by (auto simp add: div_pos_pos_trivial intro!: div_pos_pos_trivial) 
    then show ?thesis by (simp add: bit_iff_odd)
  qed
  moreover have "sint w = take_bit 32 (uint w) - 2 ^ 32 * of_bool (bit (uint w) 31)"
    using signed_take_bit_eq_take_bit_minus [of 31 "uint w"] by (simp add: sint_uint)
  moreover have "take_bit 32 (uint w) = uint w"
    using b by (simp add: take_bit_int_eq_self)
  ultimately show ?thesis by auto
qed

lemma length_check_iff:
  fixes w :: u32
  shows "(sint w < 0 \<or> sint w > MAX_PARAM_LENGTH) \<longleftrightarrow> MAX_PARAM_LENGTH < uint w"
  using uint_bounded [of w] by (auto simp add: sint32_cases MAX_PARAM_LENGTH_def)

lemma decode_length_violation_iff:
  "decode_parameters crc b = Inl LengthViolation \<longleftrightarrow> MAX_PARAM_LENGTH < uint (GETLE32 b 4)"
  unfolding decode_parameters_def Let_def length_check_iff [symmetric]
  by simp



lemma decode_unat:
  assumes "uint (GETLE32 b 4) < 2 ^ 31"
  shows "decode_parameters crc b =
     (let n = unat (GETLE32 b 4); p = take n (drop 8 b) in
      if MAX_PARAM_LENGTH < uint (GETLE32 b 4) then Inl LengthViolation
      else if RKFT_BLOCKSIZE < 8 + n + 4 then Inl TrailerOutOfBounds
      else if GETLE32 b (8 + n) \<noteq> crc 0 p then Inl (IntegrityError (GETLE32 b (8 + n)) (crc 0 p))
      else Inr p)"
proof -
  have s: "sint (GETLE32 b 4) = uint (GETLE32 b 4)"
    using assms by (simp only: sint32_cases if_True)
  show ?thesis
    unfolding decode_parameters_def s by (simp add: Let_def)
qed

lemma decode_in_bounds:
  assumes "unat (GETLE32 b 4) + 12 \<le> RKFT_BLOCKSIZE"
  shows "decode_parameters crc b =
     (let n = unat (GETLE32 b 4); p = take n (drop 8 b) in
      if GETLE32 b (8 + n) \<noteq> crc 0 p then Inl (IntegrityError (GETLE32 b (8 + n)) (crc 0 p))
      else Inr p)"
proof -
  have u: "uint (GETLE32 b 4) \<le> 16372"
    using assms uint_nat [of "GETLE32 b 4"] unfolding RKFT_BLOCKSIZE_def by linarith
  then have "uint (GETLE32 b 4) < 2 ^ 31" by simp
  from decode_unat [OF this] assms u show ?thesis
    by (simp add: Let_def RKFT_BLOCKSIZE_def MAX_PARAM_LENGTH_def)
qed

lemma decode_out_of_bounds_iff:
  "decode_parameters crc b = Inl TrailerOutOfBounds \<longleftrightarrow>
     RKFT_BLOCKSIZE < unat (GETLE32 b 4) + 12 \<and> uint (GETLE32 b 4) \<le> MAX_PARAM_LENGTH"
proof (cases "MAX_PARAM_LENGTH < uint (GETLE32 b 4)")
  case True
  then have "decode_parameters crc b = Inl LengthViolation"
    by (simp add: decode_length_violation_iff)
  with True show ?thesis by simp
next
  case False
  then have "uint (GETLE32 b 4) < 2 ^ 31"
    by (simp add: MAX_PARAM_LENGTH_def)
  from decode_unat [OF this] False show ?thesis
    by (simp add: Let_def)
qed


lemmas prims = emit_def info_def send_cbw_def recv_buf_def recv_csw_def send_buf_def

lemma frames_sent_simps [simp]:
  "frames_sent [] = []"
  "frames_sent (t @ u) = frames_sent t @ frames_sent u"
  "frames_sent (e # t) = (case e of CbwOut f \<Rightarrow> [f] | _ \<Rightarrow> []) @ frames_sent t"
  by (simp_all add: frames_sent_def)

lemma data_sent_simps [simp]:
  "data_sent [] = []"
  "data_sent (t @ u) = data_sent t @ data_sent u"
  "data_sent (e # t) = (case e of DataOut f \<Rightarrow> [f] | _ \<Rightarrow> []) @ data_sent t"
  by (simp_all add: data_sent_def)

lemma stdout_written_simps [simp]:
  "stdout_written [] = []"
  "stdout_written (t @ u) = stdout_written t @ stdout_written u"
  "stdout_written (e # t) = (case e of StdoutWrite f \<Rightarrow> [f] | _ \<Rightarrow> []) @ stdout_written t"
  by (simp_all add: stdout_written_def)

lemma case_p_buf:
  "buf (recv_csw (recv_buf n (send_cbw c off k flag (info m w)))) = store (buf w) 0 (next_answer n w)"
  by (simp add: prims Let_def next_answer_def)

lemma case_p_length_violation_iff:
  "fst (case_p crc offset flag w) = Fatal BadParameterLength \<longleftrightarrow>
     MAX_PARAM_LENGTH < uint (GETLE32 (store (buf w) 0 (next_answer RKFT_BLOCKSIZE w)) 4)"
proof -
  have b: "buf (info m' (recv_csw (recv_buf n (send_cbw c off k flag (info m w)))))
      = store (buf w) 0 (next_answer n w)" for m' n c off k m
    by (simp add: prims Let_def next_answer_def)
  show ?thesis
    unfolding case_p_def Let_def b decode_length_violation_iff [symmetric, of _ crc]
    by (simp add: write_stdout_def split: sum.splits decode_error.splits prod.splits)
qed

text \<open>
  Claim C2. The parameter check of \<open>case 'p'\<close> reports a length violation exactly when the
  length field, read as an unsigned 32-bit value, exceeds \<open>MAX_PARAM_LENGTH\<close>, which is
  \<open>128 * 512 - 12\<close>. The check comes before the CRC: a block whose length is too large is
  refused whatever the CRC function is. A length of exactly \<open>MAX_PARAM_LENGTH\<close> passes the
  length check, one more fails it. In \<open>main\<close> the violation is the fatal "Bad parameter length".
\<close>

theorem C2_length_check:
  "(decode_parameters rkcrc32 b = Inl LengthViolation \<longleftrightarrow> MAX_PARAM_LENGTH < uint (GETLE32 b 4))
   \<and> MAX_PARAM_LENGTH = 128 * 512 - 12
   \<and> (MAX_PARAM_LENGTH < uint (GETLE32 b 4) \<longrightarrow> (\<forall>f. decode_parameters f b = Inl LengthViolation))
   \<and> (uint (GETLE32 b 4) = MAX_PARAM_LENGTH \<longrightarrow> decode_parameters rkcrc32 b \<noteq> Inl LengthViolation)
   \<and> (uint (GETLE32 b 4) = MAX_PARAM_LENGTH + 1 \<longrightarrow> decode_parameters rkcrc32 b = Inl LengthViolation)
   \<and> (fst (case_p rkcrc32 offset flag w) = Fatal BadParameterLength \<longleftrightarrow>
        MAX_PARAM_LENGTH < uint (GETLE32 (store (buf w) 0 (next_answer RKFT_BLOCKSIZE w)) 4))"
  by (simp add: decode_length_violation_iff case_p_length_violation_iff MAX_PARAM_LENGTH_def)

theorem C2_length_check_witness:
  "uint (GETLE32 [0, 0, 0, 0, 0xf4, 0xff, 0, 0] 4) = MAX_PARAM_LENGTH
   \<and> decode_parameters (\<lambda>c bs. c) [0, 0, 0, 0, 0xf4, 0xff, 0, 0] \<noteq> Inl LengthViolation
   \<and> uint (GETLE32 [0, 0, 0, 0, 0xf5, 0xff, 0, 0] 4) = MAX_PARAM_LENGTH + 1
   \<and> MAX_PARAM_LENGTH < uint (GETLE32 [0, 0, 0, 0, 0xf5, 0xff, 0, 0] 4)
   \<and> decode_parameters (\<lambda>c bs. c) [0, 0, 0, 0, 0xf5, 0xff, 0, 0] = Inl LengthViolation"
proof -
  have a: "GETLE32 [0, 0, 0, 0, 0xf4, 0xff, 0, 0] 4 = 65524"
    by (simp add: GETLE32_def)
  have b: "GETLE32 [0, 0, 0, 0, 0xf5, 0xff, 0, 0] 4 = 65525"
    by (simp add: GETLE32_def)
  show ?thesis
    using C2_length_check [of "\<lambda>c bs. c" "[0, 0, 0, 0, 0xf4, 0xff, 0, 0]"]
      C2_length_check [of "\<lambda>c bs. c" "[0, 0, 0, 0, 0xf5, 0xff, 0, 0]"]
    by (simp add: a b MAX_PARAM_LENGTH_def)
qed

lemma GETLE32_PUT32LE:
  assumes "i + 4 \<le> length a"
  shows "GETLE32 (PUT32LE a i v) i = v"
proof -
  have "PUT32LE a i v = take i a @ le32 v @ drop (i + 4) a"
    by (simp add: PUT32LE_def store_def)
  moreover have "length (take i a) = i" using assms by simp
  ultimately show ?thesis by (simp only: GETLE32_le32)
qed

lemma length_field_zeros:
  "GETLE32 (PUT32LE (replicate RKFT_BLOCKSIZE 0) 4 v) 4 = v"
  by (rule GETLE32_PUT32LE) (simp add: RKFT_BLOCKSIZE_def)

text \<open>
  Claim C10. In the parameter check of \<open>case 'p'\<close> the four bytes of the CRC trailer are
  read at index \<open>8 + length\<close> of \<open>buf\<close>, which has 16384 bytes. The read stays inside the
  array exactly when the length is at most 16372, while the length check accepts every
  length up to 65524: for the accepted lengths 16373 and 65524 the trailer read is outside
  the array.
\<close>

theorem C10_trailer_read_out_of_bounds:
  "RKFT_BLOCKSIZE = 16384 \<and> MAX_PARAM_LENGTH = 65524
   \<and> (decode_parameters rkcrc32 b = Inl TrailerOutOfBounds \<longleftrightarrow>
        16372 < unat (GETLE32 b 4) \<and> unat (GETLE32 b 4) \<le> 65524)
   \<and> (unat (GETLE32 b 4) \<le> 16372 \<longrightarrow>
        decode_parameters rkcrc32 b =
          (let n = unat (GETLE32 b 4); p = take n (drop 8 b) in
           if GETLE32 b (8 + n) \<noteq> rkcrc32 0 p
           then Inl (IntegrityError (GETLE32 b (8 + n)) (rkcrc32 0 p))
           else Inr p))
   \<and> (8 + n + 3 < RKFT_BLOCKSIZE \<longleftrightarrow> n \<le> 16372)
   \<and> decode_parameters rkcrc32 (PUT32LE (replicate RKFT_BLOCKSIZE 0) 4 16373) = Inl TrailerOutOfBounds
   \<and> decode_parameters rkcrc32 (PUT32LE (replicate RKFT_BLOCKSIZE 0) 4 65524) = Inl TrailerOutOfBounds"
proof -
  have u: "uint x \<le> 65524 \<longleftrightarrow> unat x \<le> 65524" for x :: u32
    using uint_nat [of x] by linarith
  have 1: "decode_parameters rkcrc32 b = Inl TrailerOutOfBounds \<longleftrightarrow>
        16372 < unat (GETLE32 b 4) \<and> unat (GETLE32 b 4) \<le> 65524"
    unfolding decode_out_of_bounds_iff MAX_PARAM_LENGTH_def RKFT_BLOCKSIZE_def
    using u [of "GETLE32 b 4"] by auto
  have 2: "unat (GETLE32 b 4) \<le> 16372 \<longrightarrow>
        decode_parameters rkcrc32 b =
          (let n = unat (GETLE32 b 4); p = take n (drop 8 b) in
           if GETLE32 b (8 + n) \<noteq> rkcrc32 0 p
           then Inl (IntegrityError (GETLE32 b (8 + n)) (rkcrc32 0 p))
           else Inr p)"
    using decode_in_bounds [of b rkcrc32] by (simp add: RKFT_BLOCKSIZE_def)
  have 3: "decode_parameters rkcrc32 (PUT32LE (replicate RKFT_BLOCKSIZE 0) 4 16373) = Inl TrailerOutOfBounds"
    unfolding decode_out_of_bounds_iff length_field_zeros
    by (simp add: MAX_PARAM_LENGTH_def RKFT_BLOCKSIZE_def)
  have 4: "decode_parameters rkcrc32 (PUT32LE (replicate RKFT_BLOCKSIZE 0) 4 65524) = Inl TrailerOutOfBounds"
    unfolding decode_out_of_bounds_iff length_field_zeros
    by (simp add: MAX_PARAM_LENGTH_def RKFT_BLOCKSIZE_def)
  have 5: "8 + n + 3 < RKFT_BLOCKSIZE \<longleftrightarrow> n \<le> 16372"
    by (auto simp add: RKFT_BLOCKSIZE_def)
  show ?thesis
    using 1 2 3 4 5 by (simp add: RKFT_BLOCKSIZE_def MAX_PARAM_LENGTH_def)
qed

theorem C10_trailer_read_witness:
  "unat (GETLE32 (replicate RKFT_BLOCKSIZE 0) 4) \<le> 16372
   \<and> decode_parameters (\<lambda>c bs. c) (replicate RKFT_BLOCKSIZE 0) = Inr []"
proof -
  have a: "GETLE32 (replicate RKFT_BLOCKSIZE 0) n = 0" if "n + 3 < RKFT_BLOCKSIZE" for n
    using that by (simp add: GETLE32_def)
  have b: "GETLE32 (replicate RKFT_BLOCKSIZE 0) 4 = 0" "GETLE32 (replicate RKFT_BLOCKSIZE 0) 8 = 0"
    by (rule a, simp add: RKFT_BLOCKSIZE_def)+
  show ?thesis
    using C10_trailer_read_out_of_bounds [of "\<lambda>c bs. c" "replicate RKFT_BLOCKSIZE 0"]
    by (simp add: b)
qed

lemma write_replicas_buf [simp]: "buf (write_replicas os flag w) = buf w"
  by (induction os arbitrary: w) (simp_all add: prims Let_def)










section \<open>Properties of the read loops\<close>

declare read_flash.simps [simp del] write_flash.simps [simp del] erase_loop.simps [simp del]
  read_sdram.simps [simp del] write_sdram.simps [simp del] read_idb.simps [simp del]
  write_idb.simps [simp del] load_chunks.simps [simp del] spec_windows.simps [simp del]
  chunks.simps [simp del]

lemma data_requested_simps [simp]:
  "data_requested [] = []"
  "data_requested (t @ u) = data_requested t @ data_requested u"
  "data_requested (e # t) = (case e of DataIn f \<Rightarrow> [f] | _ \<Rightarrow> []) @ data_requested t"
  by (simp_all add: data_requested_def)

lemma word_of_int_s32 [simp]: "(word_of_int (s32 x) :: u32) = word_of_int x"
  by (simp add: s32_def word_of_int_eq_iff take_bit_signed_take_bit)

























section \<open>Properties of the write loops\<close>

lemma messages_simps [simp]:
  "messages [] = []"
  "messages (t @ u) = messages t @ messages u"
  "messages (e # t) = (case e of Info f \<Rightarrow> [f] | _ \<Rightarrow> []) @ messages t"
  by (simp_all add: messages_def)

lemma write_flash_done: "\<not> 0 < sz \<Longrightarrow> write_flash offset sz flag w = (Next, info Done w)"
  by (subst write_flash.simps) simp


lemma read_stdin_nonempty:
  assumes "stdin w \<noteq> []" and "0 < n"
  shows "read_stdin n w = (int (length (take n (stdin w))), take n (stdin w), w\<lparr>stdin := drop n (stdin w)\<rparr>)"
    and "\<not> int (length (take n (stdin w))) \<le> 0"
  using assms by (simp_all add: read_stdin_def)




lemma chunks_Nil [simp]: "chunks n [] = []"
  by (subst chunks.simps) simp















section \<open>Properties of the boot-stage loaders\<close>

lemma control_sent_simps [simp]:
  "control_sent [] = []"
  "control_sent (t @ u) = control_sent t @ control_sent u"
  "control_sent (e # t) = (case e of ControlOut i d \<Rightarrow> [(i, d)] | _ \<Rightarrow> []) @ control_sent t"
  by (simp_all add: control_sent_def)
















section \<open>The ID block write loop\<close>

lemma write_idb_done: "\<not> 0 < sz \<Longrightarrow> write_idb offset sz flag w = (Next, info Done w)"
  by (subst write_idb.simps) simp

lemma write_idb_step:
  assumes "0 < sz" and "stdin w \<noteq> []"
  shows "write_idb offset sz flag w =
     write_idb (s32 (offset + 1)) (sz - 1) flag
       (w\<lparr>stdin := drop RKFT_IDB_DATASIZE (stdin w),
          ibuf := store (memset (ibuf w) (int RKFT_IDB_BLOCKSIZE) 0xff) 0
                    (take RKFT_IDB_DATASIZE (stdin w)),
          nrand := Suc (nrand w),
          usb_in := tl (usb_in w),
          trace := trace w @
            [Info (WritingIDBAt offset),
             FrameDump (let f = cbw_frame (rand w (nrand w)) RKFT_CMD_WRITESECTOR
                                 (word_of_int offset) 1 flag
                        in [f ! 12, f ! 14, f ! 15, f ! 16]),
             CbwOut (cbw_frame (rand w (nrand w)) RKFT_CMD_WRITESECTOR (word_of_int offset) 1 flag),
             DataOut (take RKFT_IDB_BLOCKSIZE
                       (store (memset (ibuf w) (int RKFT_IDB_BLOCKSIZE) 0xff) 0
                          (take RKFT_IDB_DATASIZE (stdin w)))),
             CswIn]\<rparr>)"
proof -
  have p: "0 < RKFT_IDB_DATASIZE" by (simp add: RKFT_IDB_DATASIZE_def)
  have "stdin (info (WritingIDBAt offset) w
          \<lparr>ibuf := memset (ibuf (info (WritingIDBAt offset) w)) (int RKFT_IDB_BLOCKSIZE) 0xff\<rparr>) \<noteq> []"
    using assms(2) by (simp add: info_def emit_def)
  note r = read_stdin_nonempty [OF this p]
  show ?thesis
    using assms(1)
    by (subst write_idb.simps) (simp only: r Let_def if_True if_False prod.case, simp add: prims Let_def)
qed

lemma memset_swapped:
  "length b = RKFT_IDB_BLOCKSIZE \<Longrightarrow>
   memset b (int RKFT_IDB_BLOCKSIZE) 0xff = replicate 255 0x10 @ drop 255 b"
  by (simp add: memset_def store_def RKFT_IDB_BLOCKSIZE_def)

text \<open>
  Claim C9 on the code. \<open>rkflashtool j 0 2\<close> with 600 bytes 0xab on standard input sends two
  units of 0x210 bytes. The call \<open>memset(ibuf, RKFT_IDB_BLOCKSIZE, 0xff)\<close> writes 255 bytes
  of 0x10 (0x210 as an \<open>unsigned char\<close>) and never reaches bytes 255 to 527: the 16 bytes
  after the data are the zeros of the static array, not a fill written before the
  transfer, and the second unit, for which only 88 bytes are read, carries 0x10 in bytes
  88 to 254 and the first unit's data in bytes 255 to 511.
\<close>

theorem C9_idb_write_units:
  "memset (replicate RKFT_IDB_BLOCKSIZE 0) (int RKFT_IDB_BLOCKSIZE) 0xff =
     replicate 255 0x10 @ replicate 273 0
   \<and> fst (write_idb 0 2 0 (initial_world (\<lambda>n. 0) [] (replicate 600 0xab) False False)) = Next
   \<and> data_sent (trace (snd (write_idb 0 2 0
         (initial_world (\<lambda>n. 0) [] (replicate 600 0xab) False False)))) =
       [replicate 512 0xab @ replicate 16 0,
        replicate 88 0xab @ replicate 167 0x10 @ replicate 257 0xab @ replicate 16 0]"
proof -
  let ?w = "initial_world (\<lambda>n. 0) [] (replicate 600 0xab) False False"
  have w: "stdin ?w = replicate 600 0xab" "trace ?w = []" "ibuf ?w = replicate 528 0"
    by (simp_all add: initial_world_def RKFT_IDB_BLOCKSIZE_def)
  have m1: "memset (replicate 528 0) 528 255 = replicate 255 16 @ replicate 273 0"
    using memset_swapped [of "replicate 528 0"] by (simp add: RKFT_IDB_BLOCKSIZE_def)
  have m2: "memset (replicate 512 171 @ replicate 16 0) 528 255 =
      replicate 255 16 @ replicate 257 171 @ replicate 16 0"
    using memset_swapped [of "replicate 512 171 @ replicate 16 0"]
    by (simp add: RKFT_IDB_BLOCKSIZE_def)
  have u1: "take 528 (store (replicate 255 16 @ replicate 273 0) 0 (replicate 512 171)) =
      replicate 512 171 @ replicate 16 0"
    by (simp add: store_def)
  have u1': "store (replicate 255 16 @ replicate 273 0) 0 (replicate 512 171) =
      replicate 512 171 @ replicate 16 0"
    by (simp add: store_def)
  have u2: "take 528 (store (replicate 255 16 @ replicate 257 171 @ replicate 16 0) 0 (replicate 88 171)) =
      replicate 88 171 @ replicate 167 16 @ replicate 257 171 @ replicate 16 0"
    by (simp add: store_def)
  have s1: "stdin ?w \<noteq> []" by (simp add: w)
  note st1 = write_idb_step [OF _ s1, of 2 0 0, simplified, unfolded w]
  show ?thesis
    unfolding st1
    by (subst (1 2) write_idb_step)
      (simp_all add: RKFT_IDB_DATASIZE_def RKFT_IDB_BLOCKSIZE_def m1 m2 u1 u1' u2
        write_idb_done info_def emit_def)
qed

section \<open>Properties of the partition lookup\<close>

lemmas strtoul_eval = strtoul_int_def s32_def strtoul_def isspace_def is_digit_in_def
  digit_of_def ULONG_MAX_def

lemma strrchr_None_iff: "strrchr s c = None \<longleftrightarrow> c \<notin> set s"
  by (induction s) (auto split: option.splits)

lemma strrchr_last:
  "c \<notin> set post \<Longrightarrow> strrchr (pre @ c # post) c = Some (length pre)"
proof (induction pre)
  case Nil
  then show ?case by (simp add: strrchr_None_iff [THEN iffD2])
next
  case (Cons x pre)
  then show ?case by simp
qed

lemma strstr_Some:
  "strstr h n = Some i \<Longrightarrow>
     take (length n) (drop i h) = n \<and> i \<le> length h \<and> (\<forall>j<i. take (length n) (drop j h) \<noteq> n)"
proof (induction h arbitrary: i)
  case Nil
  then show ?case by (simp split: if_splits)
next
  case (Cons c cs)
  show ?case
  proof (cases "take (length n) (c # cs) = n")
    case True
    with Cons.prems show ?thesis by simp
  next
    case False
    with Cons.prems obtain k where k: "strstr cs n = Some k" "i = Suc k"
      by auto
    from Cons.IH [OF k(1)] False k(2) show ?thesis
      by (auto simp add: less_Suc_eq_0_disj)
  qed
qed

lemma strstr_None:
  "strstr h n = None \<Longrightarrow> \<forall>j\<le>length h. take (length n) (drop j h) \<noteq> n"
proof (induction h)
  case Nil
  then show ?case by (auto split: if_splits)
next
  case (Cons c cs)
  then have f: "take (length n) (c # cs) \<noteq> n" and r: "strstr cs n = None"
    by (auto split: if_splits)
  show ?case
  proof (intro allI impI)
    fix j assume "j \<le> length (c # cs)"
    then show "take (length n) (drop j (c # cs)) \<noteq> n"
      using f Cons.IH [OF r] by (cases j) auto
  qed
qed

lemma strstr_first:
  "strstr h n = Some i \<longleftrightarrow>
     take (length n) (drop i h) = n \<and> i \<le> length h \<and> (\<forall>j<i. take (length n) (drop j h) \<noteq> n)"
proof
  assume "strstr h n = Some i"
  then show "take (length n) (drop i h) = n \<and> i \<le> length h \<and> (\<forall>j<i. take (length n) (drop j h) \<noteq> n)"
    by (rule strstr_Some)
next
  assume a: "take (length n) (drop i h) = n \<and> i \<le> length h \<and> (\<forall>j<i. take (length n) (drop j h) \<noteq> n)"
  show "strstr h n = Some i"
  proof (cases "strstr h n")
    case None
    from strstr_None [OF this] a show ?thesis by auto
  next
    case (Some k)
    from strstr_Some [OF this] a have "\<not> k < i" "\<not> i < k" by auto
    with Some show ?thesis by simp
  qed
qed

lemma scan_law:
  assumes m: "strstr param ''mtdparts='' = Some m"
    and p: "strstr (drop m param) (partexp name) = Some p"
  shows "(CHR ''@'' \<notin> set (take p (drop m param)) \<longrightarrow> partition_scan param name = NoAtSign m p)
    \<and> (\<forall>head offtxt. take p (drop m param) = head @ CHR ''@'' # offtxt \<and> CHR ''@'' \<notin> set offtxt \<longrightarrow>
         (CHR ''-'' \<in> set head \<longrightarrow>
            partition_scan param name = ToEndOfNand m p (length head) (strtoul_int offtxt))
       \<and> (CHR ''-'' \<notin> set head \<longrightarrow>
            (\<forall>h t. head = h @ CHR '','' # t \<and> CHR '','' \<notin> set t \<longrightarrow>
               partition_scan param name =
                 SizeFound m p (length head) (strtoul_int offtxt) (strtoul_int t)))
       \<and> (CHR ''-'' \<notin> set head \<and> CHR '','' \<notin> set head \<longrightarrow>
            (\<forall>h t. head = h @ CHR '':'' # t \<and> CHR '':'' \<notin> set t \<longrightarrow>
               partition_scan param name =
                 SizeFound m p (length head) (strtoul_int offtxt) (strtoul_int t)))
       \<and> (CHR ''-'' \<notin> set head \<and> CHR '','' \<notin> set head \<and> CHR '':'' \<notin> set head \<longrightarrow>
            partition_scan param name = NoSize m p (length head) (strtoul_int offtxt)))"
proof -
  have 1: "partition_scan param name = NoAtSign m p"
    if "CHR ''@'' \<notin> set (take p (drop m param))"
    using that by (simp add: partition_scan_def m p strrchr_None_iff [THEN iffD2])
  have 2: "(CHR ''-'' \<in> set head \<longrightarrow>
            partition_scan param name = ToEndOfNand m p (length head) (strtoul_int offtxt))
       \<and> (CHR ''-'' \<notin> set head \<longrightarrow>
            (\<forall>h t. head = h @ CHR '','' # t \<and> CHR '','' \<notin> set t \<longrightarrow>
               partition_scan param name =
                 SizeFound m p (length head) (strtoul_int offtxt) (strtoul_int t)))
       \<and> (CHR ''-'' \<notin> set head \<and> CHR '','' \<notin> set head \<longrightarrow>
            (\<forall>h t. head = h @ CHR '':'' # t \<and> CHR '':'' \<notin> set t \<longrightarrow>
               partition_scan param name =
                 SizeFound m p (length head) (strtoul_int offtxt) (strtoul_int t)))
       \<and> (CHR ''-'' \<notin> set head \<and> CHR '','' \<notin> set head \<and> CHR '':'' \<notin> set head \<longrightarrow>
            partition_scan param name = NoSize m p (length head) (strtoul_int offtxt))"
    if d: "take p (drop m param) = head @ CHR ''@'' # offtxt" and n: "CHR ''@'' \<notin> set offtxt"
    for head offtxt
  proof -
    define pre where "pre = take p (drop m param)"
    have d': "pre = head @ CHR ''@'' # offtxt" using d by (simp add: pre_def)
    have a: "strrchr pre (CHR ''@'') = Some (length head)"
      unfolding d' by (rule strrchr_last [OF n])
    have t: "take (length head) pre = head" "drop (Suc (length head)) pre = offtxt"
      by (simp_all add: d')
    have s: "partition_scan param name =
        (if strrchr head (CHR ''-'') \<noteq> None
         then ToEndOfNand m p (length head) (strtoul_int offtxt)
         else (case strrchr head (CHR '','') of
                 Some c \<Rightarrow> SizeFound m p (length head) (strtoul_int offtxt)
                             (strtoul_int (drop (Suc c) head))
               | None \<Rightarrow>
                   (case strrchr head (CHR '':'') of
                      Some c \<Rightarrow> SizeFound m p (length head) (strtoul_int offtxt)
                                  (strtoul_int (drop (Suc c) head))
                    | None \<Rightarrow> NoSize m p (length head) (strtoul_int offtxt))))"
      unfolding partition_scan_def m p option.case Let_def pre_def [symmetric] a t
      by (rule refl)
    have c: "strrchr head (CHR ''-'') \<noteq> None \<longleftrightarrow> CHR ''-'' \<in> set head"
      by (simp add: strrchr_None_iff)
    show ?thesis
      unfolding s c
      by (auto simp add: strrchr_last strrchr_None_iff [THEN iffD2])
  qed
  show ?thesis using 1 2 by blast
qed

section \<open>Properties of the dispatcher\<close>

lemma resolve_partition_failure:
  assumes "fst (resolve_partition name flag w) = GotoExit"
  shows "map frame_command (frames_sent (trace (snd (snd (snd (resolve_partition name flag w)))))) =
           map frame_command (frames_sent (trace w)) @ [RKFT_CMD_READLBA]
    \<and> data_sent (trace (snd (snd (snd (resolve_partition name flag w))))) = data_sent (trace w)
    \<and> control_sent (trace (snd (snd (snd (resolve_partition name flag w))))) = control_sent (trace w)
    \<and> last (trace (snd (snd (snd (resolve_partition name flag w))))) \<in>
         {Info MtdpartsNotFound, Info (PartitionNotFound name), Info BadSyntaxMtdparts,
          Info BadSyntaxSize}"
  using assms
  by (auto simp add: resolve_partition_def prims Let_def split: scan.splits if_splits)

lemma resolve_partition_buf:
  "buf (recv_csw (recv_buf RKFT_BLOCKSIZE (send_cbw c off k flag (info m w)))) =
     store (buf w) 0 (next_answer RKFT_BLOCKSIZE w)"
  by (simp add: prims Let_def next_answer_def)

lemma resolve_partition_reports:
  assumes "\<not> MAX_PARAM_LENGTH < uint (GETLE32 (store (buf w) 0 (next_answer RKFT_BLOCKSIZE w)) 4)"
    and "failure_message name
           (partition_scan (param_text (store (buf w) 0 (next_answer RKFT_BLOCKSIZE w))) name) = Some msg"
  shows "fst (resolve_partition name flag w) = GotoExit
    \<and> last (trace (snd (snd (snd (resolve_partition name flag w))))) = Info msg"
  using assms
  unfolding resolve_partition_def Let_def resolve_partition_buf length_check_iff
  by (auto simp add: failure_message_def info_def emit_def split: scan.splits)

lemma resolve_partition_fails_iff:
  assumes "\<not> MAX_PARAM_LENGTH < uint (GETLE32 (store (buf w) 0 (next_answer RKFT_BLOCKSIZE w)) 4)"
  shows "fst (resolve_partition name flag w) = GotoExit \<longleftrightarrow>
     failure_message name
       (partition_scan (param_text (store (buf w) 0 (next_answer RKFT_BLOCKSIZE w))) name) \<noteq> None"
  using assms
  unfolding resolve_partition_def Let_def resolve_partition_buf length_check_iff
  by (auto simp add: failure_message_def split: scan.splits)

lemma main_Some:
  assumes "action \<noteq> CHR ''l''" and "action \<noteq> CHR ''L''"
  shows "main rkcrc16 rkcrc32 action (Some name) offset sz flag w =
     (case resolve_partition name flag
             (emit Usleep (recv_csw (send_cbw RKFT_CMD_TESTUNITREADY 0 0 flag w))) of
        (Next, offset, sz, w') \<Rightarrow> finish (dispatch rkcrc32 action offset sz flag w')
      | (fl, offset, sz, w') \<Rightarrow> finish (fl, w'))"
  using assms by (simp add: main_def Let_def)

lemma mutating_commands:
  "\<not> mutating RKFT_CMD_TESTUNITREADY" "\<not> mutating RKFT_CMD_READLBA"
  "\<not> mutating RKFT_CMD_READFLASHINFO"
  "mutating RKFT_CMD_WRITELBA" "mutating RKFT_CMD_WRITESECTOR" "mutating RKFT_CMD_WRITESDRAM"
  "mutating RKFT_CMD_EXECUTESDRAM" "mutating RKFT_CMD_RESETDEVICE"
  by (simp_all add: mutating_def RKFT_CMD_TESTUNITREADY_def RKFT_CMD_READLBA_def
      RKFT_CMD_READFLASHINFO_def RKFT_CMD_WRITELBA_def RKFT_CMD_WRITESECTOR_def
      RKFT_CMD_WRITESDRAM_def RKFT_CMD_EXECUTESDRAM_def RKFT_CMD_RESETDEVICE_def)

text \<open>
  Claim C7. For every action that resolves a partition name (every action but the two
  loaders, which resolve none): when the resolution ends in a reported failure, \<open>main\<close>
  goes to the label \<open>exit\<close>. The whole run has sent two command frames, the readiness
  probe and the read of the parameter block, neither of them a mutating command, and no
  data; the error message is the last thing before the device is released and closed,
  and the process exits with 0. The resolution ends so exactly when the lookup finds no
  partition table, no such partition, no '@' or no size (the data length being in range).
\<close>

theorem C7_resolution_failure_sends_nothing:
  assumes "action \<noteq> CHR ''l''" and "action \<noteq> CHR ''L''"
  shows
    "(let w0 = emit Usleep (recv_csw (send_cbw RKFT_CMD_TESTUNITREADY 0 0 flag w));
          b = store (buf w0) 0 (next_answer RKFT_BLOCKSIZE w0);
          r = main rkcrc16 rkcrc32 action (Some name) offset sz flag w
      in (fst (resolve_partition name flag w0) = GotoExit \<longrightarrow>
            fst r = Exited 0
          \<and> last (trace (snd r)) = Teardown
          \<and> last (butlast (trace (snd r))) \<in>
               {Info MtdpartsNotFound, Info (PartitionNotFound name), Info BadSyntaxMtdparts,
                Info BadSyntaxSize}
          \<and> map frame_command (frames_sent (trace (snd r))) =
               map frame_command (frames_sent (trace w))
                 @ [RKFT_CMD_TESTUNITREADY, RKFT_CMD_READLBA]
          \<and> \<not> mutating RKFT_CMD_TESTUNITREADY \<and> \<not> mutating RKFT_CMD_READLBA
          \<and> data_sent (trace (snd r)) = data_sent (trace w)
          \<and> control_sent (trace (snd r)) = control_sent (trace w))
       \<and> (\<not> MAX_PARAM_LENGTH < uint (GETLE32 b 4) \<longrightarrow>
            (fst (resolve_partition name flag w0) = GotoExit \<longleftrightarrow>
               failure_message name (partition_scan (param_text b) name) \<noteq> None)
          \<and> (\<forall>msg. failure_message name (partition_scan (param_text b) name) = Some msg \<longrightarrow>
                 last (butlast (trace (snd r))) = Info msg)))"
proof -
  define w0 where "w0 = emit Usleep (recv_csw (send_cbw RKFT_CMD_TESTUNITREADY 0 0 flag w))"
  define b where "b = store (buf w0) 0 (next_answer RKFT_BLOCKSIZE w0)"
  define r where "r = main rkcrc16 rkcrc32 action (Some name) offset sz flag w"
  have w0: "frames_sent (trace w0) = frames_sent (trace w)
              @ [cbw_frame (rand w (nrand w)) RKFT_CMD_TESTUNITREADY 0 0 flag]"
    "data_sent (trace w0) = data_sent (trace w)"
    "control_sent (trace w0) = control_sent (trace w)"
    by (simp_all add: w0_def prims Let_def)
  have fail: "r = (Exited 0, emit Teardown (snd (snd (snd (resolve_partition name flag w0)))))"
    if "fst (resolve_partition name flag w0) = GotoExit"
    using that unfolding r_def main_Some [OF assms] w0_def [symmetric]
    by (cases "resolve_partition name flag w0") (simp add: finish_def)
  have 1: "fst r = Exited 0
          \<and> last (trace (snd r)) = Teardown
          \<and> last (butlast (trace (snd r))) \<in>
               {Info MtdpartsNotFound, Info (PartitionNotFound name), Info BadSyntaxMtdparts,
                Info BadSyntaxSize}
          \<and> map frame_command (frames_sent (trace (snd r))) =
               map frame_command (frames_sent (trace w))
                 @ [RKFT_CMD_TESTUNITREADY, RKFT_CMD_READLBA]
          \<and> \<not> mutating RKFT_CMD_TESTUNITREADY \<and> \<not> mutating RKFT_CMD_READLBA
          \<and> data_sent (trace (snd r)) = data_sent (trace w)
          \<and> control_sent (trace (snd r)) = control_sent (trace w)"
    if f: "fst (resolve_partition name flag w0) = GotoExit"
    using resolve_partition_failure [OF f]
    by (simp add: fail [OF f] emit_def w0 mutating_commands)
  have 2: "(fst (resolve_partition name flag w0) = GotoExit \<longleftrightarrow>
               failure_message name (partition_scan (param_text b) name) \<noteq> None)
          \<and> (\<forall>msg. failure_message name (partition_scan (param_text b) name) = Some msg \<longrightarrow>
                 last (butlast (trace (snd r))) = Info msg)"
    if l: "\<not> MAX_PARAM_LENGTH < uint (GETLE32 b 4)"
  proof (intro conjI allI impI)
    show "fst (resolve_partition name flag w0) = GotoExit \<longleftrightarrow>
               failure_message name (partition_scan (param_text b) name) \<noteq> None"
      using resolve_partition_fails_iff [of w0 name flag] l by (simp add: b_def)
  next
    fix msg
    assume m: "failure_message name (partition_scan (param_text b) name) = Some msg"
    note rp = resolve_partition_reports [OF l [unfolded b_def] m [unfolded b_def], of flag]
    then have f: "fst (resolve_partition name flag w0) = GotoExit" by simp
    show "last (butlast (trace (snd r))) = Info msg"
      using rp by (simp add: fail [OF f] emit_def)
  qed
  show ?thesis
    unfolding Let_def w0_def [symmetric] b_def [symmetric] r_def [symmetric]
    using 1 2 by blast
qed

end
